theory Spec2Isabelle
  imports Complex_Main
begin

section \<open>Exceptions and results\<close>

text \<open>
  Every exception class the modelled code raises is a constructor; the message, where the
  source builds one, is kept. A call that may raise returns \<open>error + 'a\<close>, with
  \<open>Inl\<close> for the exception.
\<close>

datatype error =
    NotImplementedError string
  | ValueError string
  | KeyError string
  | TypeError
  | IndexError
  | ZeroDivisionError
  | LookupFailed
  | UFLException string

definition bind :: "error + 'a \<Rightarrow> ('a \<Rightarrow> error + 'b) \<Rightarrow> error + 'b" where
  "bind r f = (case r of Inl e \<Rightarrow> Inl e | Inr x \<Rightarrow> f x)"

text \<open>Python list indexing with a non-negative index: out of range raises IndexError.\<close>

definition idx :: "'a list \<Rightarrow> nat \<Rightarrow> error + 'a" where
  "idx xs i = (if i < length xs then Inr (xs ! i) else Inl IndexError)"

section \<open>Symbolic weak forms\<close>

text \<open>
  The residual \<open>F\<close> is a symbolic object: a sum of integrals, each an integrand over a
  measure. The integrand is kept as the expression tree the source writes, with the
  operators of the source (\<open>+\<close>, \<open>-\<close>, \<open>*\<close>, \<open>/\<close>, unary minus, which associate in
  HOL as they do in Python). What the form library does with the tree afterwards (its
  simplifications) is outside the repository and is not modelled. One check of the
  library is: it refuses to divide an expression by a Python number that is zero, and
  \<open>run\<close> passes such a number as stepsize in stationary mode.
\<close>

datatype expr =
    Num real            \<comment> \<open>a Python number\<close>
  | Sol nat             \<comment> \<open>component of the unknown, \<open>split(u)[i]\<close>\<close>
  | Prev nat            \<comment> \<open>component of the previous solution, \<open>split(u_n)[i]\<close>\<close>
  | Test nat            \<comment> \<open>component of the test function, \<open>split(v)[i]\<close>\<close>
  | Temp                \<comment> \<open>the temperature field \<open>T\<close>\<close>
  | Temp_n              \<comment> \<open>the previous temperature field \<open>T_n\<close>\<close>
  | Dt                  \<comment> \<open>the stepsize constant \<open>dt\<close>\<close>
  | Solubility          \<comment> \<open>the solubility coefficient \<open>self.S\<close>\<close>
  | Expression string   \<comment> \<open>\<open>Expression(code, ...)\<close> built from C code\<close>
  | Neg expr
  | Add expr expr
  | Sub expr expr
  | Mul expr expr
  | Div expr expr
  | Exp expr
  | Grad expr
  | Dot expr expr

instantiation expr :: "{plus, minus, uminus, times, inverse}"
begin

definition plus_expr :: "expr \<Rightarrow> expr \<Rightarrow> expr" where
  "plus_expr a b = Add a b"

definition minus_expr :: "expr \<Rightarrow> expr \<Rightarrow> expr" where
  "minus_expr a b = Sub a b"

definition uminus_expr :: "expr \<Rightarrow> expr" where
  "uminus_expr a = Neg a"

definition times_expr :: "expr \<Rightarrow> expr \<Rightarrow> expr" where
  "times_expr a b = Mul a b"

definition divide_expr :: "expr \<Rightarrow> expr \<Rightarrow> expr" where
  "divide_expr a b = Div a b"

definition inverse_expr :: "expr \<Rightarrow> expr" where
  "inverse_expr a = Div (Num 1) a"

instance ..

end

text \<open>
  \<open>a / b\<close> on a form expression: the library raises \<open>Division by zero!\<close> when
  the divisor is the Python number zero, and builds the quotient otherwise.
\<close>

definition ufl_div :: "expr \<Rightarrow> expr \<Rightarrow> error + expr" where
  "ufl_div a b = (if b = Num 0 then Inl (UFLException ''Division by zero!'') else Inr (a / b))"

datatype measure =
    dx_all          \<comment> \<open>\<open>dx\<close>, the whole domain\<close>
  | dx nat          \<comment> \<open>\<open>dx(subdomain)\<close>\<close>
  | ds nat          \<comment> \<open>\<open>ds(surface)\<close>\<close>

text \<open>\<open>F = 0\<close> is the empty list, \<open>F += e*dx(i)\<close> appends \<open>(e, dx i)\<close>.\<close>

type_synonym form = "(expr \<times> measure) list"

fun test_functions :: "expr \<Rightarrow> nat set" where
  "test_functions (Test i) = {i}"
| "test_functions (Neg a) = test_functions a"
| "test_functions (Exp a) = test_functions a"
| "test_functions (Grad a) = test_functions a"
| "test_functions (Add a b) = test_functions a \<union> test_functions b"
| "test_functions (Sub a b) = test_functions a \<union> test_functions b"
| "test_functions (Mul a b) = test_functions a \<union> test_functions b"
| "test_functions (Div a b) = test_functions a \<union> test_functions b"
| "test_functions (Dot a b) = test_functions a \<union> test_functions b"
| "test_functions _ = {}"

text \<open>The equation of component \<open>i\<close>: the integrals tested against \<open>split(v)[i]\<close>.\<close>

definition equation :: "nat \<Rightarrow> form \<Rightarrow> form" where
  "equation i F = filter (\<lambda>term. i \<in> test_functions (fst term)) F"

fun subterm :: "expr \<Rightarrow> expr \<Rightarrow> bool" where
  "subterm s (Neg a) = (s = Neg a \<or> subterm s a)"
| "subterm s (Exp a) = (s = Exp a \<or> subterm s a)"
| "subterm s (Grad a) = (s = Grad a \<or> subterm s a)"
| "subterm s (Add a b) = (s = Add a b \<or> subterm s a \<or> subterm s b)"
| "subterm s (Sub a b) = (s = Sub a b \<or> subterm s a \<or> subterm s b)"
| "subterm s (Mul a b) = (s = Mul a b \<or> subterm s a \<or> subterm s b)"
| "subterm s (Div a b) = (s = Div a b \<or> subterm s a \<or> subterm s b)"
| "subterm s (Dot a b) = (s = Dot a b \<or> subterm s a \<or> subterm s b)"
| "subterm s e = (s = e)"

section \<open>festim/hydrogen\_transport\_problem.py: create\_formulation\<close>

record species =
  solution :: expr
  prev_solution :: expr
  test_function :: expr

record 'm volume_subdomain =
  vol_id :: nat
  vol_material :: 'm

text \<open>
  \<open>vol.material.get_diffusion_coefficient(mesh, temperature, spe)\<close> belongs to the
  material class, which is not part of the modelled files: it is the parameter
  \<open>get_D\<close>, from the material, the temperature and the species to the coefficient.
\<close>

fun volumes_loop ::
  "('m \<Rightarrow> expr \<Rightarrow> species \<Rightarrow> expr) \<Rightarrow> expr \<Rightarrow> expr \<Rightarrow> species \<Rightarrow> form \<Rightarrow>
   'm volume_subdomain list \<Rightarrow> form" where
  "volumes_loop get_D temperature dt spe F [] = F"
| "volumes_loop get_D temperature dt spe F (vol # rest) =
     (let u = solution spe; u_n = prev_solution spe; v = test_function spe;
          D = get_D (vol_material vol) temperature spe;
          F = F @ [(Dot (D * Grad u) (Grad v), dx (vol_id vol))];
          F = F @ [(((u - u_n) / dt) * v, dx (vol_id vol))]
      in volumes_loop get_D temperature dt spe F rest)"

fun species_loop ::
  "('m \<Rightarrow> expr \<Rightarrow> species \<Rightarrow> expr) \<Rightarrow> expr \<Rightarrow> expr \<Rightarrow> 'm volume_subdomain list \<Rightarrow>
   form \<Rightarrow> species list \<Rightarrow> form" where
  "species_loop get_D temperature dt vols F [] = F"
| "species_loop get_D temperature dt vols F (spe # rest) =
     species_loop get_D temperature dt vols (volumes_loop get_D temperature dt spe F vols) rest"

definition create_formulation ::
  "('m \<Rightarrow> expr \<Rightarrow> species \<Rightarrow> expr) \<Rightarrow> expr \<Rightarrow> expr \<Rightarrow> 's list \<Rightarrow> species list \<Rightarrow>
   'm volume_subdomain list \<Rightarrow> error + form" where
  "create_formulation get_D temperature dt sources species_list volume_subdomains =
     (if length sources > 1 then Inl (NotImplementedError ''Sources not implemented yet'')
      else Inr (species_loop get_D temperature dt volume_subdomains [] species_list))"

section \<open>Cas\_test\_solubility/cas\_test\_solubility.py: formulation\<close>

text \<open>
  A material and a trap are dictionaries of the parameter file; the keys the function
  reads are the fields of a record. \<open>trap['materials']\<close> is one subdomain id or a list
  of them. \<open>trap['density']\<close> is a symbolic expression that the function prints as C
  code; the record keeps the printed code.
\<close>

record material =
  D_0 :: real
  S_0 :: real
  E_diff :: real
  E_S :: real
  mat_id :: nat
  alpha :: real
  beta :: real

datatype trap_materials = Single nat | Several "nat list"

record trap =
  trap_density :: string
  trap_energy :: real
  trap_materials :: trap_materials

record parameters =
  p_materials :: "material list"
  p_traps :: "trap list"

text \<open>
  The arguments that stay the same through the loops. \<open>k_B\<close> is the constant
  \<open>FESTIM.k_B\<close>, whose value is not in the modelled files. The arguments
  \<open>extrinsic_traps\<close> and \<open>dx\<close> are left out: the first is never read, the second is
  the measure constructor.
\<close>

record formulation_args =
  k_B :: real
  solutions :: "expr list"
  testfunctions :: "expr list"
  previous_solutions :: "expr list"
  dt :: expr
  T :: expr
  T_n :: expr
  transient :: bool

definition v_0 :: real where
  "v_0 = 10 ^ 13"

text \<open>The first loop, over \<open>parameters["materials"]\<close>.\<close>

fun materials_loop :: "formulation_args \<Rightarrow> form \<Rightarrow> material list \<Rightarrow> error + form" where
  "materials_loop a F [] = Inr F"
| "materials_loop a F (material # rest) =
     (let subdomain = mat_id material in
      bind (if transient a then
              bind (idx (solutions a) 0) (\<lambda>s0.
              bind (idx (previous_solutions a) 0) (\<lambda>p0.
              bind (ufl_div
                      (Num (S_0 material) * Exp (- Num (E_S material) / Num (k_B a) / T a) * s0
                        - Num (S_0 material) * Exp (- Num (E_S material) / Num (k_B a) / T_n a) * p0)
                      (dt a)) (\<lambda>rate.
              bind (idx (testfunctions a) 0) (\<lambda>v0.
                Inr (F @ [(rate * v0, dx subdomain)])))))
            else Inr F) (\<lambda>F.
      bind (idx (solutions a) 0) (\<lambda>s0.
      bind (idx (testfunctions a) 0) (\<lambda>v0.
        materials_loop a
          (F @ [(Dot (Num (D_0 material) * Exp (- Num (E_diff material) / Num (k_B a) / T a) *
                        Grad (Num (S_0 material) * Exp (- Num (E_S material) / Num (k_B a) / T a) * s0))
                     (Grad v0),
                 dx subdomain)])
          rest))))"

text \<open>
  \<open>FESTIM.helpers.find_material_from_id\<close> is not in the modelled files: the lookup is
  the parameter \<open>find_material_from_id\<close>, which returns the material of a subdomain or
  fails.
\<close>

type_synonym lookup = "material list \<Rightarrow> nat \<Rightarrow> error + material"

text \<open>The inner loop of a trap, over its subdomains; \<open>i\<close> is the index of the trap.\<close>

fun subdomains_loop ::
  "formulation_args \<Rightarrow> lookup \<Rightarrow> material list \<Rightarrow> expr \<Rightarrow> real \<Rightarrow> nat \<Rightarrow> form \<Rightarrow> nat list \<Rightarrow>
   error + form" where
  "subdomains_loop a find_material_from_id mats density energy i F [] = Inr F"
| "subdomains_loop a find_material_from_id mats density energy i F (subdomain # rest) =
     bind (find_material_from_id mats subdomain) (\<lambda>corresponding_material.
     bind (ufl_div (- Num (D_0 corresponding_material) *
                      Exp (- Num (E_diff corresponding_material) / Num (k_B a) / T a))
                   (Num (alpha corresponding_material))) (\<lambda>q.
     bind (ufl_div q (Num (alpha corresponding_material))) (\<lambda>q.
     bind (ufl_div q (Num (beta corresponding_material))) (\<lambda>q.
     bind (idx (solutions a) 0) (\<lambda>s0.
     bind (idx (solutions a) i) (\<lambda>si.
     bind (idx (testfunctions a) i) (\<lambda>vi.
       subdomains_loop a find_material_from_id mats density energy i
         (F @ [(q *
                    Num (S_0 corresponding_material) *
                    Exp (- Num (E_S corresponding_material) / Num (k_B a) / T a) * s0 *
                    (density - si) * vi,
                  dx subdomain),
               (Num v_0 * Exp (- Num energy / Num (k_B a) / T a) * si * vi,
                  dx subdomain)])
         rest)))))))"

text \<open>\<open>if type(material) is not list: material = [material]\<close>\<close>

definition as_list :: "trap_materials \<Rightarrow> nat list" where
  "as_list material = (case material of Single m \<Rightarrow> [m] | Several ms \<Rightarrow> ms)"

text \<open>The second loop, over \<open>parameters["traps"]\<close>, with the running index \<open>i\<close>.\<close>

fun traps_loop ::
  "formulation_args \<Rightarrow> lookup \<Rightarrow> material list \<Rightarrow> nat \<Rightarrow> form \<Rightarrow> expr list \<Rightarrow> trap list \<Rightarrow>
   error + (form \<times> expr list)" where
  "traps_loop a find_material_from_id mats i F expressions [] = Inr (F, expressions)"
| "traps_loop a find_material_from_id mats i F expressions (trap # rest) =
     (let density = Expression (trap_density trap);
          expressions = expressions @ [density];
          subdomains = as_list (trap_materials trap)
      in
      bind (if transient a then
              bind (idx (solutions a) i) (\<lambda>si.
              bind (idx (previous_solutions a) i) (\<lambda>pi.
              bind (ufl_div (si - pi) (dt a)) (\<lambda>rate.
              bind (idx (testfunctions a) i) (\<lambda>vi.
                Inr (F @ [(rate * vi, dx_all)])))))
            else Inr F) (\<lambda>F.
      bind (subdomains_loop a find_material_from_id mats density (trap_energy trap) i F subdomains)
        (\<lambda>F.
      bind (idx (solutions a) i) (\<lambda>si.
      bind (idx (previous_solutions a) i) (\<lambda>pi.
      bind (ufl_div (si - pi) (dt a)) (\<lambda>rate.
      bind (idx (testfunctions a) 0) (\<lambda>v0.
        traps_loop a find_material_from_id mats (i + 1)
          (F @ [(rate * v0, dx_all)]) expressions rest)))))))"

definition formulation ::
  "formulation_args \<Rightarrow> lookup \<Rightarrow> parameters \<Rightarrow> error + (form \<times> expr list)" where
  "formulation a find_material_from_id params =
     bind (materials_loop a [] (p_materials params)) (\<lambda>F.
       traps_loop a find_material_from_id (p_materials params) 1 F [] (p_traps params))"

text \<open>
  The arguments \<open>run\<close> passes for \<open>n\<close> traps: the components of \<open>u\<close>, \<open>v\<close> and
  \<open>u_n\<close> (one for the mobile species and one for each trap), the two temperature
  fields and the stepsize. \<open>run\<close> sets \<open>dt = 0\<close>, a Python number, and replaces it by
  the constant \<open>Constant(initial_stepsize)\<close> only \<open>if transient\<close>: in stationary mode
  \<open>formulation\<close> receives the number zero.
\<close>

definition run_args :: "real \<Rightarrow> nat \<Rightarrow> bool \<Rightarrow> formulation_args" where
  "run_args kB n tr =
     \<lparr>k_B = kB, solutions = map Sol [0..<Suc n], testfunctions = map Test [0..<Suc n],
      previous_solutions = map Prev [0..<Suc n], dt = (if tr then Dt else Num 0), T = Temp,
      T_n = Temp_n, transient = tr\<rparr>"

text \<open>The first material of the list with the given id.\<close>

definition first_with_id :: lookup where
  "first_with_id mats i =
     (case filter (\<lambda>m. mat_id m = i) mats of [] \<Rightarrow> Inl LookupFailed | m # _ \<Rightarrow> Inr m)"

text \<open>
  The integrands the trap with index \<open>i\<close> contributes, as \<open>run\<close> makes them: the
  capture term and the release term, both tested against the trap's own test function,
  and the time derivative of the trap tested against the test function of the mobile
  species.
\<close>

definition capture_term :: "real \<Rightarrow> material \<Rightarrow> string \<Rightarrow> nat \<Rightarrow> expr" where
  "capture_term kB m dens i =
     - Num (D_0 m) * Exp (- Num (E_diff m) / Num kB / Temp) / Num (alpha m) / Num (alpha m) /
       Num (beta m) * Num (S_0 m) * Exp (- Num (E_S m) / Num kB / Temp) * Sol 0 *
       (Expression dens - Sol i) * Test i"

definition release_term :: "real \<Rightarrow> real \<Rightarrow> nat \<Rightarrow> expr" where
  "release_term kB E i = Num v_0 * Exp (- Num E / Num kB / Temp) * Sol i * Test i"

definition coupling_term :: "nat \<Rightarrow> expr" where
  "coupling_term i = ((Sol i - Prev i) / Dt) * Test 0"

text \<open>
  An equation holds the capture rate of a trap when one of its integrands has the factor
  \<open>density - c_trap\<close>, and the release rate when one of its integrands has the factor
  \<open>exp(-E_trap/k_B/T)\<close>.
\<close>

definition capture_rate_in :: "nat \<Rightarrow> trap \<Rightarrow> nat \<Rightarrow> form \<Rightarrow> bool" where
  "capture_rate_in j trap i F =
     (\<exists>term \<in> set (equation j F). subterm (Expression (trap_density trap) - Sol i) (fst term))"

definition release_rate_in :: "real \<Rightarrow> nat \<Rightarrow> trap \<Rightarrow> form \<Rightarrow> bool" where
  "release_rate_in kB j trap F =
     (\<exists>term \<in> set (equation j F). subterm (Exp (- Num (trap_energy trap) / Num kB / Temp)) (fst term))"

text \<open>A parameter set with one material, of subdomain 1, and one trap in it.\<close>

definition one_material :: material where
  "one_material = \<lparr>D_0 = 1, S_0 = 1, E_diff = 1, E_S = 2, mat_id = 1, alpha = 1, beta = 1\<rparr>"

definition one_trap :: trap where
  "one_trap = \<lparr>trap_density = ''n1'', trap_energy = 3, trap_materials = Single 1\<rparr>"

definition one_trap_parameters :: parameters where
  "one_trap_parameters = \<lparr>p_materials = [one_material], p_traps = [one_trap]\<rparr>"






section \<open>Python strings\<close>







section \<open>FESTIM/post\_processing.py: material properties\<close>

text \<open>
  A material is a dictionary from keys to Python values; the values the accessors can
  meet are numbers and callables. \<open>material[key]\<close> raises KeyError on a missing key.
\<close>

datatype pyval = Number real | Callable "real \<Rightarrow> real"

type_synonym material_dict = "string \<Rightarrow> pyval option"

definition getitem :: "material_dict \<Rightarrow> string \<Rightarrow> error + pyval" where
  "getitem material key = (case material key of None \<Rightarrow> Inl (KeyError key) | Some v \<Rightarrow> Inr v)"

text \<open>
  Python arithmetic on the values: a callable operand is a TypeError, a division by zero
  gives no number.
\<close>

definition py_neg :: "pyval \<Rightarrow> error + real" where
  "py_neg v = (case v of Number a \<Rightarrow> Inr (- a) | Callable f \<Rightarrow> Inl TypeError)"

definition py_div :: "real \<Rightarrow> real \<Rightarrow> error + real" where
  "py_div a b = (if b = 0 then Inl ZeroDivisionError else Inr (a / b))"

definition py_mul :: "pyval \<Rightarrow> real \<Rightarrow> error + real" where
  "py_mul v b = (case v of Number a \<Rightarrow> Inr (a * b) | Callable f \<Rightarrow> Inl TypeError)"

text \<open>
  The three coefficient classes. A coefficient is evaluated on a cell at a point:
  \<open>vm\<close> gives the subdomain of the cell, \<open>find_material_from_id\<close> (a parameter, as
  above) the material of the subdomain, \<open>temperature\<close> the temperature at the point.
  \<open>kB\<close> is \<open>FESTIM.k_B\<close>.
\<close>

datatype coefficient =
    ArheniusCoeff string string    \<comment> \<open>the keys \<open>pre_exp\<close> and \<open>E\<close>\<close>
  | ThermalProp string             \<comment> \<open>the key\<close>
  | HCoeff

type_synonym dict_lookup = "material_dict list \<Rightarrow> nat \<Rightarrow> error + material_dict"

definition ArheniusCoeff_eval_cell ::
  "real \<Rightarrow> dict_lookup \<Rightarrow> material_dict list \<Rightarrow> ('c \<Rightarrow> nat) \<Rightarrow> ('x \<Rightarrow> real) \<Rightarrow> string \<Rightarrow> string \<Rightarrow>
   'x \<Rightarrow> 'c \<Rightarrow> error + real" where
  "ArheniusCoeff_eval_cell kB find_material_from_id mats vm temperature pre_exp E x cell =
     (let subdomain_id = vm cell in
      bind (find_material_from_id mats subdomain_id) (\<lambda>material.
      bind (getitem material pre_exp) (\<lambda>D_0.
      bind (getitem material E) (\<lambda>E_D.
      bind (py_neg E_D) (\<lambda>a.
      bind (py_div a kB) (\<lambda>b.
      bind (py_div b (temperature x)) (\<lambda>c.
        py_mul D_0 (exp c))))))))"

definition ThermalProp_eval_cell ::
  "dict_lookup \<Rightarrow> material_dict list \<Rightarrow> ('c \<Rightarrow> nat) \<Rightarrow> ('x \<Rightarrow> real) \<Rightarrow> string \<Rightarrow>
   'x \<Rightarrow> 'c \<Rightarrow> error + pyval" where
  "ThermalProp_eval_cell find_material_from_id mats vm temperature key x cell =
     (let subdomain_id = vm cell in
      bind (find_material_from_id mats subdomain_id) (\<lambda>material.
      bind (getitem material key) (\<lambda>v.
        case v of Callable f \<Rightarrow> Inr (Number (f (temperature x))) | Number a \<Rightarrow> Inr (Number a))))"

text \<open>
  \<open>create_properties\<close>: the diffusion coefficient always, the others when some material
  has the key. The enthalpy coefficient is created but none of its values is modelled.
\<close>

record properties =
  prop_D :: coefficient
  prop_thermal_cond :: "coefficient option"
  prop_cp :: "coefficient option"
  prop_rho :: "coefficient option"
  prop_H :: "coefficient option"
  prop_S :: "coefficient option"

definition create_properties_step :: "properties \<Rightarrow> material_dict \<Rightarrow> properties" where
  "create_properties_step p mat =
     (let p = (if mat ''S_0'' \<noteq> None then p\<lparr>prop_S := Some (ArheniusCoeff ''S_0'' ''E_S'')\<rparr> else p);
          p = (if mat ''thermal_cond'' \<noteq> None
               then p\<lparr>prop_thermal_cond := Some (ThermalProp ''thermal_cond''),
                      prop_cp := Some (ThermalProp ''heat_capacity''),
                      prop_rho := Some (ThermalProp ''rho'')\<rparr>
               else p);
          p = (if mat ''H'' \<noteq> None then p\<lparr>prop_H := Some HCoeff\<rparr> else p)
      in p)"

fun create_properties_loop :: "properties \<Rightarrow> material_dict list \<Rightarrow> properties" where
  "create_properties_loop p [] = p"
| "create_properties_loop p (mat # rest) =
     create_properties_loop (create_properties_step p mat) rest"

definition create_properties :: "material_dict list \<Rightarrow> properties" where
  "create_properties mats =
     create_properties_loop
       \<lparr>prop_D = ArheniusCoeff ''D_0'' ''E_D'', prop_thermal_cond = None, prop_cp = None,
        prop_rho = None, prop_H = None, prop_S = None\<rparr> mats"

section \<open>FESTIM/post\_processing.py: check\_keys\_derived\_quantities\<close>
















section \<open>FESTIM/post\_processing.py: header\_derived\_quantities\<close>









section \<open>Cas\_test\_solubility/cas\_test\_solubility.py: run\<close>


text \<open>
  What a run does from \<open>t = 0\<close> on is a trace of events: the solves, the
  post-processing and the assignments to the fields, in the order of their execution.
  The library calls behind the events are not part of the modelled files and are taken
  to return.
\<close>

datatype event =
    Advance real              \<comment> \<open>\<open>t += float(dt)\<close>, with the new time\<close>
  | Update_expressions        \<comment> \<open>the calls of \<open>update_expressions\<close>\<close>
  | Assign_T                  \<comment> \<open>\<open>T.assign(interpolate(T_expr, W))\<close>\<close>
  | Bind_coefficients         \<comment> \<open>\<open>self.D._T = self.T.T\<close> and the like\<close>
  | Solve_heat                \<comment> \<open>the solve of the heat equation\<close>
  | Assign_T_n                \<comment> \<open>\<open>T_n.assign(T)\<close>\<close>
  | Solve_main                \<comment> \<open>\<open>solve_it\<close>\<close>
  | Solve_extrinsic nat       \<comment> \<open>the solve of the density of an extrinsic trap\<close>
  | Post_processing           \<comment> \<open>\<open>run_post_processing\<close>\<close>
  | Assign_u_n                \<comment> \<open>\<open>u_n.assign(u)\<close>\<close>
  | Assign_previous_trap nat  \<comment> \<open>the assignment to the previous density of a trap\<close>
  | Solve_once                \<comment> \<open>\<open>solve_once\<close>\<close>






section \<open>Helper lemmas about results and the formulation loops\<close>

lemmas expr_ops = plus_expr_def minus_expr_def uminus_expr_def times_expr_def divide_expr_def

lemma bind_Inr [simp]: "bind (Inr x) f = f x" by (simp add: bind_def)
lemma bind_Inl [simp]: "bind (Inl e) f = Inl e" by (simp add: bind_def)
lemma bind_eq_Inr: "bind r f = Inr y \<longleftrightarrow> (\<exists>x. r = Inr x \<and> f x = Inr y)"
  by (cases r) simp_all

lemma idx_run_args [simp]:
  "idx (solutions (run_args kB n tr)) i = (if i \<le> n then Inr (Sol i) else Inl IndexError)"
  "idx (testfunctions (run_args kB n tr)) i = (if i \<le> n then Inr (Test i) else Inl IndexError)"
  "idx (previous_solutions (run_args kB n tr)) i = (if i \<le> n then Inr (Prev i) else Inl IndexError)"
  by (auto simp add: run_args_def idx_def nth_append simp del: upt_Suc)

lemma run_args_simps [simp]:
  "k_B (run_args kB n tr) = kB"
  "dt (run_args kB n tr) = (if tr then Dt else Num 0)"
  "T (run_args kB n tr) = Temp" "T_n (run_args kB n tr) = Temp_n"
  "transient (run_args kB n tr) = tr"
  by (simp_all add: run_args_def)

lemma ufl_div_eq_Inr: "ufl_div a b = Inr q \<longleftrightarrow> b \<noteq> Num 0 \<and> q = a / b"
  by (auto simp: ufl_div_def)

lemma ufl_div_Dt [simp]: "ufl_div a Dt = Inr (a / Dt)"
  by (simp add: ufl_div_def)

lemma ufl_div_zero [simp]: "ufl_div a (Num 0) = Inl (UFLException ''Division by zero!'')"
  by (simp add: ufl_div_def)


lemma materials_loop_eq0:
  "materials_loop (run_args kB n tr) F mats = Inr F' \<Longrightarrow> \<exists>G. F' = F @ G \<and> equation 0 G = G"
proof (induction mats arbitrary: F F')
  case Nil then show ?case by (simp add: equation_def)
next
  case (Cons m mats)
  from Cons.prems obtain H where H: "equation 0 H = H" and
    rest: "materials_loop (run_args kB n tr) (F @ H) mats = Inr F'"
    by (cases tr) (force simp: Let_def equation_def expr_ops)+
  from Cons.IH[OF rest] obtain G where "F' = (F @ H) @ G" "equation 0 G = G" by blast
  with H have "F' = F @ (H @ G) \<and> equation 0 (H @ G) = H @ G" by (simp add: equation_def)
  then show ?case by blast
qed

lemma subdomains_loop_run:
  "subdomains_loop (run_args kB n tr) fm mats (Expression dens) E i F subs = Inr F' \<Longrightarrow> 0 < i \<Longrightarrow>
   set F \<subseteq> set F' \<and> equation 0 F' = equation 0 F \<and>
   (\<forall>s \<in> set subs. \<exists>cm. fm mats s = Inr cm \<and> (capture_term kB cm dens i, dx s) \<in> set F' \<and>
        (release_term kB E i, dx s) \<in> set F')"
proof (induction subs arbitrary: F F')
  case Nil then show ?case by simp
next
  case (Cons s subs)
  from Cons.prems obtain cm where cm: "fm mats s = Inr cm" and i: "i \<le> n" and
    rest: "subdomains_loop (run_args kB n tr) fm mats (Expression dens) E i
         (F @ [(capture_term kB cm dens i, dx s), (release_term kB E i, dx s)]) subs = Inr F'"
    by (auto simp: bind_eq_Inr ufl_div_eq_Inr capture_term_def release_term_def
        split: if_splits)
  from Cons.IH[OF rest \<open>0 < i\<close>] cm \<open>0 < i\<close> show ?case
    by (auto simp: equation_def capture_term_def release_term_def expr_ops)
qed


lemma traps_loop_run:
  "traps_loop (run_args kB n tr) fm mats i F ex trs = Inr (F', ex') \<Longrightarrow> 0 < i \<Longrightarrow>
   set F \<subseteq> set F' \<and>
   equation 0 F' = equation 0 F @ map (\<lambda>j. (coupling_term j, dx_all)) [i..<i + length trs] \<and>
   (\<forall>k<length trs. (coupling_term (i + k), dx_all) \<in> set F' \<and>
      (\<forall>s \<in> set (as_list (trap_materials (trs ! k))). \<exists>cm. fm mats s = Inr cm \<and>
         (capture_term kB cm (trap_density (trs ! k)) (i + k), dx s) \<in> set F' \<and>
         (release_term kB (trap_energy (trs ! k)) (i + k), dx s) \<in> set F'))"
proof (induction trs arbitrary: i F ex F' ex')
  case Nil then show ?case by simp
next
  case (Cons trap trs)
  let ?own = "(((Sol i - Prev i) / Dt) * Test i, dx_all)"
  let ?F1 = "if tr then F @ [?own] else F"
  from Cons.prems obtain F2 where i: "i \<le> n" and
    sub: "subdomains_loop (run_args kB n tr) fm mats (Expression (trap_density trap))
            (trap_energy trap) i ?F1 (as_list (trap_materials trap)) = Inr F2" and
    rest: "traps_loop (run_args kB n tr) fm mats (Suc i) (F2 @ [(coupling_term i, dx_all)])
            (ex @ [Expression (trap_density trap)]) trs = Inr (F', ex')"
    by (cases tr) (auto simp: Let_def bind_eq_Inr coupling_term_def split: if_splits)
  note A = subdomains_loop_run[OF sub \<open>0 < i\<close>]
  have B: "set (F2 @ [(coupling_term i, dx_all)]) \<subseteq> set F'"
    "equation 0 F' = equation 0 (F2 @ [(coupling_term i, dx_all)]) @
        map (\<lambda>j. (coupling_term j, dx_all)) [Suc i..<Suc i + length trs]"
    "\<forall>k<length trs. (coupling_term (Suc i + k), dx_all) \<in> set F' \<and>
      (\<forall>s \<in> set (as_list (trap_materials (trs ! k))). \<exists>cm. fm mats s = Inr cm \<and>
         (capture_term kB cm (trap_density (trs ! k)) (Suc i + k), dx s) \<in> set F' \<and>
         (release_term kB (trap_energy (trs ! k)) (Suc i + k), dx s) \<in> set F')"
    using Cons.IH[OF rest] by simp_all
  have eq0: "equation 0 F2 = equation 0 F"
    using A \<open>0 < i\<close> by (simp add: equation_def expr_ops)
  have 1: "set F \<subseteq> set F'" using A B(1) by (auto split: if_splits)
  have 2: "equation 0 F' = equation 0 F @
      map (\<lambda>j. (coupling_term j, dx_all)) [i..<i + length (trap # trs)]"
  proof -
    have "[i..<i + length (trap # trs)] = i # [Suc i..<Suc i + length trs]"
      by (subst upt_rec) simp
    then show ?thesis
      using B(2) eq0 by (simp add: equation_def coupling_term_def expr_ops del: upt_Suc)
  qed
  have 3: "(coupling_term (i + k), dx_all) \<in> set F' \<and>
      (\<forall>s \<in> set (as_list (trap_materials ((trap # trs) ! k))). \<exists>cm. fm mats s = Inr cm \<and>
         (capture_term kB cm (trap_density ((trap # trs) ! k)) (i + k), dx s) \<in> set F' \<and>
         (release_term kB (trap_energy ((trap # trs) ! k)) (i + k), dx s) \<in> set F')"
    if "k < length (trap # trs)" for k
  proof (cases k)
    case 0
    then show ?thesis using A B(1) by fastforce
  next
    case (Suc k')
    then show ?thesis using B(3) that by simp
  qed
  from 1 2 3 show ?case by blast
qed







section \<open>Results about create\_formulation\<close>

text \<open>
  C10. \<open>create_formulation\<close> raises exactly when more than one source is declared. With
  one source it raises nothing and adds no source term: the formulation is the one built
  with no source at all.
\<close>

theorem create_formulation_sources:
  "(isl (create_formulation get_D temperature step sources sp vols) \<longleftrightarrow> length sources > 1) \<and>
   (length sources = 1 \<longrightarrow>
      \<not> isl (create_formulation get_D temperature step sources sp vols) \<and>
      create_formulation get_D temperature step sources sp vols =
        create_formulation get_D temperature step ([] :: 's list) sp vols)"
  by (simp add: create_formulation_def)

theorem create_formulation_sources_witness:
  "length [''source''] = 1 \<and>
   create_formulation (\<lambda>m T spe. Num m) Temp Dt [''source'']
     [\<lparr>solution = Sol 0, prev_solution = Prev 0, test_function = Test 0\<rparr>]
     [\<lparr>vol_id = 1, vol_material = 2\<rparr>] =
   Inr [(Dot (Num 2 * Grad (Sol 0)) (Grad (Test 0)), dx 1),
        (((Sol 0 - Prev 0) / Dt) * Test 0, dx 1)] \<and>
   create_formulation (\<lambda>m T spe. Num m) Temp Dt ([] :: string list)
     [\<lparr>solution = Sol 0, prev_solution = Prev 0, test_function = Test 0\<rparr>]
     [\<lparr>vol_id = 1, vol_material = 2\<rparr>] =
   Inr [(Dot (Num 2 * Grad (Sol 0)) (Grad (Test 0)), dx 1),
        (((Sol 0 - Prev 0) / Dt) * Test 0, dx 1)]"
  using create_formulation_sources
    [of "\<lambda>m T spe. Num m" Temp Dt "[''source'']"
        "[\<lparr>solution = Sol 0, prev_solution = Prev 0, test_function = Test 0\<rparr>]"
        "[\<lparr>vol_id = 1, vol_material = 2\<rparr>]"]
  by (simp add: create_formulation_def Let_def)

section \<open>Results about formulation\<close>

text \<open>
  C3, as stated, at one material and one trap in transient mode: the claim puts the
  capture rate and the release rate of the trap into the equation of the mobile species.
  No integrand of that equation holds either of them.
\<close>

theorem mobile_equation_without_rates:
  "map_sum id (\<lambda>(F, ex). capture_rate_in 0 one_trap 1 F \<or> release_rate_in 1 0 one_trap F)
     (formulation (run_args 1 1 True) first_with_id one_trap_parameters) = Inr False"
  by (auto simp add: formulation_def one_trap_parameters_def one_material_def one_trap_def
      first_with_id_def as_list_def Let_def capture_rate_in_def release_rate_in_def equation_def
      ufl_div_def expr_ops)


text \<open>
  C3, amended. When \<open>formulation\<close> returns, for every trap (the \<open>k\<close>-th, of index
  \<open>k + 1\<close>) and every subdomain \<open>s\<close> of it, the material of \<open>s\<close> is found and the
  equation of the trap holds, over \<open>dx(s)\<close>, the capture term
  \<open>- D_0 exp(-E_diff/k_B/T) / alpha / alpha / beta * S_0 exp(-E_S/k_B/T) * c_mobile *
  (density - c_trap) * v_trap\<close> and the release term
  \<open>v_0 exp(-E_trap/k_B/T) * c_trap * v_trap\<close>, of opposite signs. The equation of the
  mobile species is made of the integrands of the materials loop followed by one integrand
  \<open>(c_trap - c_trap_prev)/dt * v_mobile\<close> over \<open>dx\<close> for each trap, and nothing else:
  the traps are coupled to it through their time derivative, not through the two rates.
  A residual with a trap is one of transient mode: in stationary mode the stepsize is the
  number zero and the function raises at the first trap, so that it returns only without
  traps, and the equation of the mobile species is then the integrands of the materials
  loop alone.
\<close>

theorem trap_reaction_terms:
  assumes "formulation (run_args kB n tr) fm params = Inr (F, ex)"
  shows "(\<forall>k < length (p_traps params).
            \<forall>s \<in> set (as_list (trap_materials (p_traps params ! k))).
              \<exists>cm. fm (p_materials params) s = Inr cm \<and>
                (capture_term kB cm (trap_density (p_traps params ! k)) (Suc k), dx s)
                  \<in> set (equation (Suc k) F) \<and>
                (release_term kB (trap_energy (p_traps params ! k)) (Suc k), dx s)
                  \<in> set (equation (Suc k) F)) \<and>
         (\<exists>Fm. materials_loop (run_args kB n tr) [] (p_materials params) = Inr Fm \<and>
            equation 0 F =
              Fm @ map (\<lambda>i. (coupling_term i, dx_all)) [1..<Suc (length (p_traps params))])"
proof -
  from assms obtain Fm where
    Fm: "materials_loop (run_args kB n tr) [] (p_materials params) = Inr Fm" and
    tl: "traps_loop (run_args kB n tr) fm (p_materials params) 1 Fm [] (p_traps params) = Inr (F, ex)"
    by (auto simp: formulation_def bind_eq_Inr)
  from materials_loop_eq0[OF Fm] have Fm0: "equation 0 Fm = Fm" by auto
  note L = traps_loop_run[OF tl]
  have a: "\<exists>cm. fm (p_materials params) s = Inr cm \<and>
                (capture_term kB cm (trap_density (p_traps params ! k)) (Suc k), dx s)
                  \<in> set (equation (Suc k) F) \<and>
                (release_term kB (trap_energy (p_traps params ! k)) (Suc k), dx s)
                  \<in> set (equation (Suc k) F)"
    if "k < length (p_traps params)" "s \<in> set (as_list (trap_materials (p_traps params ! k)))"
    for k s
  proof -
    from L that obtain cm where "fm (p_materials params) s = Inr cm"
      "(capture_term kB cm (trap_density (p_traps params ! k)) (Suc k), dx s) \<in> set F"
      "(release_term kB (trap_energy (p_traps params ! k)) (Suc k), dx s) \<in> set F"
      by fastforce
    then show ?thesis
      by (auto simp: equation_def capture_term_def release_term_def expr_ops)
  qed
  have b: "equation 0 F = Fm @ map (\<lambda>i. (coupling_term i, dx_all)) [1..<Suc (length (p_traps params))]"
    using L Fm0 by simp
  from a b Fm show ?thesis by blast
qed


theorem trap_reaction_terms_witness:
  "formulation (run_args 1 1 True) first_with_id one_trap_parameters =
     Inr ([((Num 1 * Exp (- Num 2 / Num 1 / Temp) * Sol 0 -
             Num 1 * Exp (- Num 2 / Num 1 / Temp_n) * Prev 0) / Dt * Test 0, dx 1),
           (Dot (Num 1 * Exp (- Num 1 / Num 1 / Temp) * Grad (Num 1 * Exp (- Num 2 / Num 1 / Temp) * Sol 0))
              (Grad (Test 0)), dx 1),
           (((Sol 1 - Prev 1) / Dt) * Test 1, dx_all),
           (capture_term 1 one_material ''n1'' 1, dx 1),
           (release_term 1 3 1, dx 1),
           (coupling_term 1, dx_all)],
          [Expression ''n1'']) \<and>
   (0::nat) < length (p_traps one_trap_parameters) \<and>
   1 \<in> set (as_list (trap_materials (p_traps one_trap_parameters ! 0))) \<and>
   (\<exists>cm. first_with_id (p_materials one_trap_parameters) 1 = Inr cm \<and>
      (capture_term 1 cm (trap_density (p_traps one_trap_parameters ! 0)) (Suc 0), dx 1)
        \<in> set (equation (Suc 0)
            [((Num 1 * Exp (- Num 2 / Num 1 / Temp) * Sol 0 -
               Num 1 * Exp (- Num 2 / Num 1 / Temp_n) * Prev 0) / Dt * Test 0, dx 1),
             (Dot (Num 1 * Exp (- Num 1 / Num 1 / Temp) * Grad (Num 1 * Exp (- Num 2 / Num 1 / Temp) * Sol 0))
                (Grad (Test 0)), dx 1),
             (((Sol 1 - Prev 1) / Dt) * Test 1, dx_all),
             (capture_term 1 one_material ''n1'' 1, dx 1),
             (release_term 1 3 1, dx 1),
             (coupling_term 1, dx_all)]))"
proof -
  let ?F = "[((Num 1 * Exp (- Num 2 / Num 1 / Temp) * Sol 0 -
               Num 1 * Exp (- Num 2 / Num 1 / Temp_n) * Prev 0) / Dt * Test 0, dx 1),
             (Dot (Num 1 * Exp (- Num 1 / Num 1 / Temp) * Grad (Num 1 * Exp (- Num 2 / Num 1 / Temp) * Sol 0))
                (Grad (Test 0)), dx 1),
             (((Sol 1 - Prev 1) / Dt) * Test 1, dx_all),
             (capture_term 1 one_material ''n1'' 1, dx 1),
             (release_term 1 3 1, dx 1),
             (coupling_term 1, dx_all)]"
  have h: "formulation (run_args 1 1 True) first_with_id one_trap_parameters =
             Inr (?F, [Expression ''n1''])"
    by (simp add: formulation_def one_trap_parameters_def one_material_def one_trap_def
        first_with_id_def as_list_def Let_def capture_term_def release_term_def coupling_term_def
        ufl_div_def)
  have k: "(0::nat) < length (p_traps one_trap_parameters)"
    by (simp add: one_trap_parameters_def)
  have s: "1 \<in> set (as_list (trap_materials (p_traps one_trap_parameters ! 0)))"
    by (simp add: one_trap_parameters_def one_trap_def as_list_def)
  from trap_reaction_terms [OF h] k s
  have "\<exists>cm. first_with_id (p_materials one_trap_parameters) 1 = Inr cm \<and>
      (capture_term 1 cm (trap_density (p_traps one_trap_parameters ! 0)) (Suc 0), dx 1)
        \<in> set (equation (Suc 0) ?F)"
    by blast
  with h k s show ?thesis by blast
qed



section \<open>Results about the material properties\<close>

lemma create_properties_step_fields:
  "prop_D (create_properties_step p mat) = prop_D p"
  "prop_S (create_properties_step p mat) =
     (if mat ''S_0'' \<noteq> None then Some (ArheniusCoeff ''S_0'' ''E_S'') else prop_S p)"
  "prop_thermal_cond (create_properties_step p mat) =
     (if mat ''thermal_cond'' \<noteq> None then Some (ThermalProp ''thermal_cond'')
      else prop_thermal_cond p)"
  "prop_cp (create_properties_step p mat) =
     (if mat ''thermal_cond'' \<noteq> None then Some (ThermalProp ''heat_capacity'') else prop_cp p)"
  "prop_rho (create_properties_step p mat) =
     (if mat ''thermal_cond'' \<noteq> None then Some (ThermalProp ''rho'') else prop_rho p)"
  by (simp_all add: create_properties_step_def Let_def)

lemma create_properties_loop_D: "prop_D (create_properties_loop p mats) = prop_D p"
  by (induction mats arbitrary: p) (simp_all add: create_properties_step_fields)

lemma create_properties_loop_S:
  "prop_S (create_properties_loop p mats) =
     (if \<exists>m \<in> set mats. m ''S_0'' \<noteq> None then Some (ArheniusCoeff ''S_0'' ''E_S'') else prop_S p)"
  by (induction mats arbitrary: p) (auto simp: create_properties_step_fields)

lemma create_properties_loop_thermal:
  "prop_thermal_cond (create_properties_loop p mats) =
     (if \<exists>m \<in> set mats. m ''thermal_cond'' \<noteq> None then Some (ThermalProp ''thermal_cond'')
      else prop_thermal_cond p)"
  "prop_cp (create_properties_loop p mats) =
     (if \<exists>m \<in> set mats. m ''thermal_cond'' \<noteq> None then Some (ThermalProp ''heat_capacity'')
      else prop_cp p)"
  "prop_rho (create_properties_loop p mats) =
     (if \<exists>m \<in> set mats. m ''thermal_cond'' \<noteq> None then Some (ThermalProp ''rho'')
      else prop_rho p)"
  by (induction mats arbitrary: p) (auto simp: create_properties_step_fields)

lemma create_properties_kinds:
  "prop_D (create_properties mats) = ArheniusCoeff ''D_0'' ''E_D''"
  "prop_S (create_properties mats) =
     (if \<exists>m \<in> set mats. m ''S_0'' \<noteq> None then Some (ArheniusCoeff ''S_0'' ''E_S'') else None)"
  "prop_thermal_cond (create_properties mats) =
     (if \<exists>m \<in> set mats. m ''thermal_cond'' \<noteq> None then Some (ThermalProp ''thermal_cond'')
      else None)"
  "prop_cp (create_properties mats) =
     (if \<exists>m \<in> set mats. m ''thermal_cond'' \<noteq> None then Some (ThermalProp ''heat_capacity'')
      else None)"
  "prop_rho (create_properties mats) =
     (if \<exists>m \<in> set mats. m ''thermal_cond'' \<noteq> None then Some (ThermalProp ''rho'')
      else None)"
  unfolding create_properties_def
  by (simp_all only: create_properties_loop_D create_properties_loop_S
      create_properties_loop_thermal properties.simps)


text \<open>
  C5, as stated, on a material whose diffusivity entry \<open>D_0\<close> is a callable: the claim
  has the accessor return the callable applied to the temperature. The diffusion
  coefficient is an \<open>ArheniusCoeff\<close>, which never tests for a callable: it multiplies
  the entry by the exponential, a TypeError.
\<close>

theorem callable_diffusivity_not_invoked:
  "ArheniusCoeff_eval_cell 1 idx
     [[''D_0'' \<mapsto> Callable (\<lambda>T. 2 * T), ''E_D'' \<mapsto> Number 0]]
     (\<lambda>cell :: unit. 0) (\<lambda>x :: unit. 300) ''D_0'' ''E_D'' () () = Inl TypeError"
  by (simp add: ArheniusCoeff_eval_cell_def getitem_def py_neg_def py_div_def py_mul_def idx_def)


text \<open>
  C5, amended. On a cell whose material is found, at a point of non-zero temperature and
  with a non-zero \<open>k_B\<close>: an \<open>ArheniusCoeff\<close> evaluates
  \<open>pre_exp * exp(-E / (k_B * T))\<close> from the two numbers of the material, and a
  callable pre-exponential factor is a TypeError; a \<open>ThermalProp\<close> returns the
  callable applied to the temperature when the entry is callable and the entry itself
  otherwise, with no Arrhenius law. \<open>create_properties\<close> makes the diffusion and
  solubility coefficients of the first class and the thermal conductivity, the heat
  capacity and the density of the second.
\<close>

theorem material_property_accessors:
  assumes "fm mats (vm cell) = Inr material" and "kB \<noteq> 0" and "temperature x \<noteq> 0"
  shows "(material pre_exp = Some (Number d) \<and> material E = Some (Number e) \<longrightarrow>
            ArheniusCoeff_eval_cell kB fm mats vm temperature pre_exp E x cell =
              Inr (d * exp (- e / (kB * temperature x)))) \<and>
         (material pre_exp = Some (Callable f) \<and> material E = Some (Number e) \<longrightarrow>
            ArheniusCoeff_eval_cell kB fm mats vm temperature pre_exp E x cell = Inl TypeError) \<and>
         (material key = Some (Callable f) \<longrightarrow>
            ThermalProp_eval_cell fm mats vm temperature key x cell =
              Inr (Number (f (temperature x)))) \<and>
         (material key = Some (Number c) \<longrightarrow>
            ThermalProp_eval_cell fm mats vm temperature key x cell = Inr (Number c)) \<and>
         prop_D (create_properties mats) = ArheniusCoeff ''D_0'' ''E_D'' \<and>
         prop_S (create_properties mats) \<in> {None, Some (ArheniusCoeff ''S_0'' ''E_S'')} \<and>
         prop_thermal_cond (create_properties mats) \<in> {None, Some (ThermalProp ''thermal_cond'')} \<and>
         prop_cp (create_properties mats) \<in> {None, Some (ThermalProp ''heat_capacity'')} \<and>
         prop_rho (create_properties mats) \<in> {None, Some (ThermalProp ''rho'')}"
proof -
  have kinds: "prop_D (create_properties mats) = ArheniusCoeff ''D_0'' ''E_D'' \<and>
         prop_S (create_properties mats) \<in> {None, Some (ArheniusCoeff ''S_0'' ''E_S'')} \<and>
         prop_thermal_cond (create_properties mats) \<in> {None, Some (ThermalProp ''thermal_cond'')} \<and>
         prop_cp (create_properties mats) \<in> {None, Some (ThermalProp ''heat_capacity'')} \<and>
         prop_rho (create_properties mats) \<in> {None, Some (ThermalProp ''rho'')}"
    by (simp add: create_properties_kinds)
  have evals: "(material pre_exp = Some (Number d) \<and> material E = Some (Number e) \<longrightarrow>
            ArheniusCoeff_eval_cell kB fm mats vm temperature pre_exp E x cell =
              Inr (d * exp (- e / (kB * temperature x)))) \<and>
         (material pre_exp = Some (Callable f) \<and> material E = Some (Number e) \<longrightarrow>
            ArheniusCoeff_eval_cell kB fm mats vm temperature pre_exp E x cell = Inl TypeError) \<and>
         (material key = Some (Callable f) \<longrightarrow>
            ThermalProp_eval_cell fm mats vm temperature key x cell =
              Inr (Number (f (temperature x)))) \<and>
         (material key = Some (Number c) \<longrightarrow>
            ThermalProp_eval_cell fm mats vm temperature key x cell = Inr (Number c))"
    using assms
    by (simp add: ArheniusCoeff_eval_cell_def ThermalProp_eval_cell_def getitem_def py_neg_def
        py_div_def py_mul_def Let_def)
  from kinds evals show ?thesis by blast
qed


theorem material_property_accessors_witness:
  "idx [[''D_0'' \<mapsto> Number 2, ''E_D'' \<mapsto> Number 0, ''rho'' \<mapsto> Callable (\<lambda>T. 2 * T),
         ''thermal_cond'' \<mapsto> Number 5]] ((\<lambda>cell :: unit. 0) ()) =
     Inr [''D_0'' \<mapsto> Number 2, ''E_D'' \<mapsto> Number 0, ''rho'' \<mapsto> Callable (\<lambda>T. 2 * T),
         ''thermal_cond'' \<mapsto> Number 5] \<and> (1::real) \<noteq> 0 \<and> (\<lambda>x :: unit. 300 :: real) () \<noteq> 0 \<and>
   ArheniusCoeff_eval_cell 1 idx
     [[''D_0'' \<mapsto> Number 2, ''E_D'' \<mapsto> Number 0, ''rho'' \<mapsto> Callable (\<lambda>T. 2 * T),
         ''thermal_cond'' \<mapsto> Number 5]]
     (\<lambda>cell :: unit. 0) (\<lambda>x :: unit. 300) ''D_0'' ''E_D'' () () = Inr 2"
proof -
  let ?m = "[''D_0'' \<mapsto> Number 2, ''E_D'' \<mapsto> Number 0, ''rho'' \<mapsto> Callable (\<lambda>T. 2 * T),
         ''thermal_cond'' \<mapsto> Number 5]"
  have h: "idx [?m] ((\<lambda>cell :: unit. 0) ()) = Inr ?m" by (simp add: idx_def)
  have k: "(1::real) \<noteq> 0" by simp
  have t: "(\<lambda>x :: unit. 300 :: real) () \<noteq> 0" by simp
  note inst = material_property_accessors [where fm = idx and mats = "[?m]" and vm = "\<lambda>cell :: unit. 0"
      and cell = "()" and material = ?m and kB = 1 and temperature = "\<lambda>x :: unit. 300" and x = "()"
      and pre_exp = "''D_0''" and d = 2 and E = "''E_D''" and e = 0 and key = "''rho''"
      and f = "\<lambda>T. 2 * T" and c = 5, OF h k t, THEN conjunct1]
  have pre: "?m ''D_0'' = Some (Number 2) \<and> ?m ''E_D'' = Some (Number 0)" by simp
  from inst pre
  have "ArheniusCoeff_eval_cell 1 idx [?m] (\<lambda>cell :: unit. 0) (\<lambda>x :: unit. 300) ''D_0'' ''E_D'' () () =
          Inr (2 * exp (- 0 / (1 * (\<lambda>x :: unit. 300 :: real) ())))"
    by (rule mp)
  then have "ArheniusCoeff_eval_cell 1 idx [?m] (\<lambda>cell :: unit. 0) (\<lambda>x :: unit. 300) ''D_0'' ''E_D'' () () = Inr 2"
    by simp
  with h k t show ?thesis by blast
qed

section \<open>Results about the validation of the derived quantities\<close>












lemma not_Inr_unit: "r \<noteq> Inr () \<longleftrightarrow> isl r" for r :: "error + unit"
  by (cases r) simp_all






end
